theory Spec2Isabelle
  imports Main "HOL-Library.AList" "HOL-Library.Sublist"
begin

section \<open>The real-time notification layer (backend/src/utils/socketManager.ts)\<close>

text \<open>
  The class \<^verbatim>\<open>SocketManager\<close> keeps one piece of state of its own, the map
  \<^verbatim>\<open>connectedUsers\<close> (userId to socketId), and drives a Socket.IO server. The
  Socket.IO library is not part of the repository; the three things the program relies on
  are modelled next to the program's own state:
  \<^item> the rooms of the default in-memory adapter, a relation between socket ids and room
    names (\<^verbatim>\<open>socket.join\<close> adds a pair, \<^verbatim>\<open>socket.leave\<close> removes it, closing a
    socket removes all its pairs before the \<^verbatim>\<open>disconnect\<close> handlers run);
  \<^item> the set of sockets that are connected;
  \<^item> connection state recovery, which the constructor switches on with
    \<^verbatim>\<open>skipMiddlewares: true\<close>: a connection attempt that presents the private id and
    the offset of a session the adapter can still restore gets a socket with the id and
    the rooms of that session and the packets it missed, and the middleware is not run;
  \<^item> the events emitted to each socket, in order (\<^verbatim>\<open>socket.emit\<close> reaches one socket,
    \<^verbatim>\<open>io.to(room).emit\<close> reaches every socket of the room once).
  The private room every socket has under its own id is used nowhere in the program and
  is left out. Logging is left out. An exception that leaves a handler or an emitter is
  caught nowhere in the file: the function ends there, with the state it has reached.
\<close>

subsection \<open>JavaScript values\<close>

text \<open>
  Values handed in by callers and clients (\<^verbatim>\<open>any\<close> in the source): undefined, null,
  strings and objects. Numbers and host objects are not modelled.
\<close>

datatype js_val =
    JUndefined
  | JNull
  | JStr string
  | JObj "string \<Rightarrow> js_val option"

type_synonym js_obj = "string \<Rightarrow> js_val option"

text \<open>A call that may throw.\<close>

datatype 'a js_result = Thrown | Ok 'a

text \<open>
  The text a template literal \<^verbatim>\<open>`${v}`\<close> inserts for a value. An object is
  converted through its \<^verbatim>\<open>toString\<close>: the inherited one gives
  \<^verbatim>\<open>[object Object]\<close>; an own property \<^verbatim>\<open>toString\<close> hides it, and since no value
  modelled here is callable (nor is then \<^verbatim>\<open>valueOf\<close>, own or inherited, of any
  help), the conversion throws a \<^verbatim>\<open>TypeError\<close>.
\<close>

fun to_str :: "js_val \<Rightarrow> string js_result" where
  "to_str JUndefined = Ok ''undefined''"
| "to_str JNull = Ok ''null''"
| "to_str (JStr s) = Ok s"
| "to_str (JObj obj) = (if obj ''toString'' = None then Ok ''[object Object]'' else Thrown)"

text \<open>Property access \<^verbatim>\<open>obj.key\<close>: a missing property reads as undefined.\<close>

definition get_prop :: "js_obj \<Rightarrow> string \<Rightarrow> js_val" where
  "get_prop obj k = (case obj k of None \<Rightarrow> JUndefined | Some v \<Rightarrow> v)"

text \<open>
  What an emitted payload holds under a key: a value taken over from the caller, the
  \<^verbatim>\<open>Date\<close> object of \<^verbatim>\<open>new Date()\<close>, or the string of
  \<^verbatim>\<open>new Date().toISOString()\<close>. The clock reading is a natural number.
\<close>

datatype field_val =
    Val js_val
  | DateObj nat
  | IsoString nat

type_synonym payload = "string \<Rightarrow> field_val option"

type_synonym event = "string \<times> payload"

text \<open>The spread \<^verbatim>\<open>...data\<close> inside an object literal.\<close>

definition spread :: "js_obj \<Rightarrow> payload" where
  "spread d = (\<lambda>k. map_option Val (d k))"

subsection \<open>Sockets and the server state\<close>

text \<open>
  \<^verbatim>\<open>interface AuthenticatedSocket extends Socket { userId?, userType?, userEmail? }\<close>:
  the three fields are optional; \<open>None\<close> is an absent field.
\<close>

record auth_socket =
  sock_id :: string
  userId :: "string option"
  userType :: "string option"
  userEmail :: "string option"

text \<open>An optional string in a condition: absent and empty are both falsy.\<close>

fun truthy :: "string option \<Rightarrow> bool" where
  "truthy None = False"
| "truthy (Some s) = (s \<noteq> [])"

fun opt_val :: "string option \<Rightarrow> field_val" where
  "opt_val None = Val JUndefined"
| "opt_val (Some s) = Val (JStr s)"

record server_state =
  connectedUsers :: "(string \<times> string) list"
  rooms :: "(string \<times> string) set"
  sockets :: "string set"
  outbox :: "string \<Rightarrow> event list"

text \<open>
  \<open>connectedUsers\<close> is the JavaScript \<^verbatim>\<open>Map<string, string>\<close>, kept as an association
  list in insertion order: \<^verbatim>\<open>set\<close> is \<^const>\<open>AList.update\<close> (an existing key keeps its
  place and gets the new value), \<^verbatim>\<open>delete\<close> is \<^const>\<open>AList.delete\<close>, \<^verbatim>\<open>has\<close> is a
  lookup and \<^verbatim>\<open>size\<close> the length. A pair of \<open>rooms\<close> is (socket id, room name).
\<close>

definition initial_state :: server_state where
  "initial_state = \<lparr>connectedUsers = [], rooms = {}, sockets = {}, outbox = (\<lambda>_. [])\<rparr>"

text \<open>
  How a handler or an emitter ends: it returns, or an exception leaves it; either way
  with the state reached.
\<close>

datatype outcome = Returned server_state | Threw server_state

fun state_of :: "outcome \<Rightarrow> server_state" where
  "state_of (Returned s) = s"
| "state_of (Threw s) = s"

fun threw :: "outcome \<Rightarrow> bool" where
  "threw (Returned s) = False"
| "threw (Threw s) = True"

subsection \<open>The library operations the program calls\<close>

definition socket_join :: "string \<Rightarrow> string \<Rightarrow> server_state \<Rightarrow> server_state" where
  "socket_join sid room s = s\<lparr>rooms := insert (sid, room) (rooms s)\<rparr>"

definition socket_leave :: "string \<Rightarrow> string \<Rightarrow> server_state \<Rightarrow> server_state" where
  "socket_leave sid room s = s\<lparr>rooms := rooms s - {(sid, room)}\<rparr>"

definition socket_emit :: "string \<Rightarrow> event \<Rightarrow> server_state \<Rightarrow> server_state" where
  "socket_emit sid ev s = s\<lparr>outbox := (outbox s)(sid := outbox s sid @ [ev])\<rparr>"

definition io_to_emit :: "string \<Rightarrow> event \<Rightarrow> server_state \<Rightarrow> server_state" where
  "io_to_emit room ev s =
     s\<lparr>outbox := (\<lambda>c. if (c, room) \<in> rooms s then outbox s c @ [ev] else outbox s c)\<rparr>"

text \<open>Closing a socket: it leaves every room and is no longer connected.\<close>

definition socket_close :: "string \<Rightarrow> server_state \<Rightarrow> server_state" where
  "socket_close sid s =
     s\<lparr>rooms := Set.filter (\<lambda>p. fst p \<noteq> sid) (rooms s), sockets := sockets s - {sid}\<rparr>"

subsection \<open>setupMiddleware: authentication of a connection attempt\<close>

text \<open>
  \<^verbatim>\<open>jwt.verify\<close> and \<^verbatim>\<open>User.findById\<close> are outside the file and may throw;
  they are parameters of the middleware. \<open>verify token\<close> is \<^verbatim>\<open>decoded.userId\<close> of
  the verified token (the tokens of this application are signed over
  \<^verbatim>\<open>{ userId, userType }\<close>), \<open>findById uid\<close> the stored document or \<open>None\<close> for
  \<^verbatim>\<open>null\<close>. A user document carries the flag \<^verbatim>\<open>isActive\<close> that the admin routes
  clear to suspend an account; the middleware selects \<^verbatim>\<open>_id email userType name\<close> and
  reads the first three. Every exception inside the \<^verbatim>\<open>try\<close> block ends in
  \<^verbatim>\<open>Invalid token\<close>.
\<close>

record user_doc =
  u_id :: string
  u_email :: string
  u_userType :: string
  u_name :: string
  u_isActive :: bool

text \<open>
  What a connection attempt brings: the id the server assigns to a new socket,
  \<^verbatim>\<open>handshake.auth.token\<close>, \<^verbatim>\<open>handshake.headers.authorization\<close>, and the two fields
  of \<^verbatim>\<open>handshake.auth\<close> a client sends to get its session back, \<^verbatim>\<open>pid\<close> and
  \<^verbatim>\<open>offset\<close>.
\<close>

record handshake =
  hs_socket_id :: string
  auth_token :: "string option"
  authorization :: "string option"
  hs_pid :: "string option"
  hs_offset :: "string option"

datatype auth_error = NoTokenProvided | UserNotFound | InvalidToken

fun error_message :: "auth_error \<Rightarrow> string" where
  "error_message NoTokenProvided = ''Authentication error: No token provided''"
| "error_message UserNotFound = ''Authentication error: User not found''"
| "error_message InvalidToken = ''Authentication error: Invalid token''"

text \<open>\<^verbatim>\<open>s.replace(pat, rep)\<close> with a string pattern: the first occurrence only.\<close>

fun replace_first :: "string \<Rightarrow> string \<Rightarrow> string \<Rightarrow> string" where
  "replace_first pat rep [] = (if pat = [] then rep else [])"
| "replace_first pat rep (c # cs) =
     (if prefix pat (c # cs) then rep @ drop (length pat) (c # cs)
      else c # replace_first pat rep cs)"

text \<open>
  \<^verbatim>\<open>handshake.auth?.token || handshake.headers?.authorization?.replace('Bearer ', '')\<close>
\<close>

definition handshake_token :: "handshake \<Rightarrow> string option" where
  "handshake_token hs =
     (if truthy (auth_token hs) then auth_token hs
      else map_option (replace_first ''Bearer '' '''') (authorization hs))"

definition setupMiddleware ::
  "(string \<Rightarrow> string js_result) \<Rightarrow> (string \<Rightarrow> user_doc option js_result) \<Rightarrow>
   handshake \<Rightarrow> auth_error + auth_socket" where
  "setupMiddleware verify findById hs =
     (case handshake_token hs of
        None \<Rightarrow> Inl NoTokenProvided
      | Some token \<Rightarrow>
          if token = [] then Inl NoTokenProvided
          else (case verify token of
                  Thrown \<Rightarrow> Inl InvalidToken
                | Ok uid \<Rightarrow>
                    (case findById uid of
                       Thrown \<Rightarrow> Inl InvalidToken
                     | Ok None \<Rightarrow> Inl UserNotFound
                     | Ok (Some user) \<Rightarrow>
                         Inr \<lparr>sock_id = hs_socket_id hs,
                              userId = Some (u_id user),
                              userType = Some (u_userType user),
                              userEmail = Some (u_email user)\<rparr>)))"

subsection \<open>setupEventHandlers: the connection handler\<close>

definition store_connection :: "auth_socket \<Rightarrow> server_state \<Rightarrow> server_state" where
  "store_connection sk s =
     (case userId sk of
        None \<Rightarrow> s
      | Some u \<Rightarrow>
          if u = [] then s
          else s\<lparr>connectedUsers := AList.update u (sock_id sk) (connectedUsers s)\<rparr>)"

definition join_personal_room :: "auth_socket \<Rightarrow> server_state \<Rightarrow> server_state" where
  "join_personal_room sk s =
     (case userId sk of
        None \<Rightarrow> s
      | Some u \<Rightarrow> if u = [] then s else socket_join (sock_id sk) (''user:'' @ u) s)"

definition join_role_room :: "auth_socket \<Rightarrow> server_state \<Rightarrow> server_state" where
  "join_role_room sk s =
     (case userType sk of
        None \<Rightarrow> s
      | Some r \<Rightarrow> if r = [] then s else socket_join (sock_id sk) r s)"

definition join_admin_room :: "auth_socket \<Rightarrow> server_state \<Rightarrow> server_state" where
  "join_admin_room sk s =
     (if userType sk = Some ''admin'' then socket_join (sock_id sk) ''admin'' s else s)"

definition connected_payload :: "auth_socket \<Rightarrow> nat \<Rightarrow> payload" where
  "connected_payload sk t =
     [''message'' \<mapsto> Val (JStr ''Successfully connected to server''),
      ''userId'' \<mapsto> opt_val (userId sk),
      ''userType'' \<mapsto> opt_val (userType sk),
      ''socketId'' \<mapsto> Val (JStr (sock_id sk)),
      ''timestamp'' \<mapsto> IsoString t]"

text \<open>The body of \<^verbatim>\<open>io.on('connection', ...)\<close> up to the registration of the handlers.\<close>

definition on_connection :: "auth_socket \<Rightarrow> nat \<Rightarrow> server_state \<Rightarrow> server_state" where
  "on_connection sk t s =
     socket_emit (sock_id sk) (''connected'', connected_payload sk t)
       (join_admin_room sk (join_role_room sk (join_personal_room sk (store_connection sk s))))"

text \<open>A socket that passed the middleware: it is connected, then the handler runs.\<close>

definition accept :: "auth_socket \<Rightarrow> nat \<Rightarrow> server_state \<Rightarrow> server_state" where
  "accept sk t s = on_connection sk t (s\<lparr>sockets := insert (sock_id sk) (sockets s)\<rparr>)"

text \<open>
  Connection state recovery (\<^verbatim>\<open>connectionStateRecovery\<close> with
  \<^verbatim>\<open>maxDisconnectionDuration\<close> of two minutes and \<^verbatim>\<open>skipMiddlewares: true\<close>). A
  restored session holds the socket id, the rooms the socket was in when it closed and
  the packets sent to those rooms since. The adapter's \<^verbatim>\<open>restoreSession\<close> is outside
  the file and a parameter here: given a private id and an offset it returns the
  session, or nothing when there is none, when it is older than the two minutes, or when
  the offset is no longer known. It is asked only when the handshake has both fields.
  What the adapter keeps of a closing socket for a later recovery is behind this
  parameter too.
\<close>

record session =
  sess_sid :: string
  sess_rooms :: "string list"
  sess_missedPackets :: "event list"

definition recover :: "(string \<Rightarrow> string \<Rightarrow> session option) \<Rightarrow> handshake \<Rightarrow> session option" where
  "recover restoreSession hs =
     (case hs_pid hs of
        None \<Rightarrow> None
      | Some pid \<Rightarrow>
          (case hs_offset hs of
             None \<Rightarrow> None
           | Some off \<Rightarrow> restoreSession pid off))"

text \<open>
  The socket of a recovered session is a new socket object with the session's id: it
  joins the session's rooms and is sent the missed packets; the fields \<^verbatim>\<open>userId\<close>,
  \<^verbatim>\<open>userType\<close> and \<^verbatim>\<open>userEmail\<close>, which only the middleware sets, are absent.
\<close>

definition recovered_socket :: "session \<Rightarrow> auth_socket" where
  "recovered_socket sess =
     \<lparr>sock_id = sess_sid sess, userId = None, userType = None, userEmail = None\<rparr>"

definition restore_rooms :: "session \<Rightarrow> server_state \<Rightarrow> server_state" where
  "restore_rooms sess s =
     fold (\<lambda>ev. socket_emit (sess_sid sess) ev) (sess_missedPackets sess)
       (fold (\<lambda>room. socket_join (sess_sid sess) room) (sess_rooms sess) s)"

text \<open>
  A connection attempt as the library runs it. A recovered session is connected without
  the middleware, and the connection handler runs on its socket. Otherwise the
  middleware runs first; when it calls \<^verbatim>\<open>next\<close> with an error the attempt is refused
  and the connection handler never runs.
\<close>

definition connect ::
  "(string \<Rightarrow> string \<Rightarrow> session option) \<Rightarrow>
   (string \<Rightarrow> string js_result) \<Rightarrow> (string \<Rightarrow> user_doc option js_result) \<Rightarrow>
   handshake \<Rightarrow> nat \<Rightarrow> server_state \<Rightarrow> server_state \<times> auth_error option" where
  "connect restoreSession verify findById hs t s =
     (case recover restoreSession hs of
        Some sess \<Rightarrow> (accept (recovered_socket sess) t (restore_rooms sess s), None)
      | None \<Rightarrow>
          (case setupMiddleware verify findById hs of
             Inl e \<Rightarrow> (s, Some e)
           | Inr sk \<Rightarrow> (accept sk t s, None)))"

subsection \<open>setupEventHandlers: the handlers of one socket\<close>

definition on_disconnect :: "auth_socket \<Rightarrow> server_state \<Rightarrow> server_state" where
  "on_disconnect sk s =
     (case userId sk of
        None \<Rightarrow> s
      | Some u \<Rightarrow>
          if u = [] then s
          else s\<lparr>connectedUsers := AList.delete u (connectedUsers s)\<rparr>)"

text \<open>A socket closing, whatever the reason: the library's cleanup, then the handler.\<close>

definition disconnect :: "auth_socket \<Rightarrow> server_state \<Rightarrow> server_state" where
  "disconnect sk s = on_disconnect sk (socket_close (sock_id sk) s)"

text \<open>
  The two job room handlers build the room name with a template literal first; when
  that throws, nothing has been joined or left.
\<close>

definition join_job_room :: "auth_socket \<Rightarrow> js_val \<Rightarrow> server_state \<Rightarrow> outcome" where
  "join_job_room sk jobId s =
     (case to_str jobId of
        Thrown \<Rightarrow> Threw s
      | Ok name \<Rightarrow> Returned (socket_join (sock_id sk) (''job:'' @ name) s))"

definition leave_job_room :: "auth_socket \<Rightarrow> js_val \<Rightarrow> server_state \<Rightarrow> outcome" where
  "leave_job_room sk jobId s =
     (case to_str jobId of
        Thrown \<Rightarrow> Threw s
      | Ok name \<Rightarrow> Returned (socket_leave (sock_id sk) (''job:'' @ name) s))"

definition kyc_status_request :: "auth_socket \<Rightarrow> nat \<Rightarrow> server_state \<Rightarrow> server_state" where
  "kyc_status_request sk t s =
     (case userId sk of
        None \<Rightarrow> s
      | Some u \<Rightarrow>
          if u = [] then s
          else socket_emit (sock_id sk)
                 (''kyc:status:response'',
                  [''userId'' \<mapsto> Val (JStr u), ''timestamp'' \<mapsto> DateObj t]) s)"

definition ping :: "auth_socket \<Rightarrow> nat \<Rightarrow> server_state \<Rightarrow> server_state" where
  "ping sk t s = socket_emit (sock_id sk) (''pong'', [''timestamp'' \<mapsto> IsoString t]) s"

text \<open>
  The inbound messages a client can send, each with the clock reading at its handling,
  and a run of messages from any sockets, in arrival order. The run ends at the first
  handler that throws.
\<close>

datatype client_msg =
    JoinJobRoom js_val
  | LeaveJobRoom js_val
  | KycStatusRequest
  | Ping

fun handle_msg :: "auth_socket \<Rightarrow> client_msg \<Rightarrow> nat \<Rightarrow> server_state \<Rightarrow> outcome" where
  "handle_msg sk (JoinJobRoom j) t s = join_job_room sk j s"
| "handle_msg sk (LeaveJobRoom j) t s = leave_job_room sk j s"
| "handle_msg sk KycStatusRequest t s = Returned (kyc_status_request sk t s)"
| "handle_msg sk Ping t s = Returned (ping sk t s)"

fun handle_msgs :: "(auth_socket \<times> client_msg \<times> nat) list \<Rightarrow> server_state \<Rightarrow> outcome" where
  "handle_msgs [] s = Returned s"
| "handle_msgs ((sk, m, t) # ms) s =
     (case handle_msg sk m t s of
        Threw s' \<Rightarrow> Threw s'
      | Returned s' \<Rightarrow> handle_msgs ms s')"

subsection \<open>Queries\<close>

definition getConnectedUsersCount :: "server_state \<Rightarrow> nat" where
  "getConnectedUsersCount s = length (connectedUsers s)"

definition isUserConnected :: "string \<Rightarrow> server_state \<Rightarrow> bool" where
  "isUserConnected u s = (map_of (connectedUsers s) u \<noteq> None)"

subsection \<open>Emitters\<close>

definition kyc_user_payload :: "js_obj \<Rightarrow> nat \<Rightarrow> payload" where
  "kyc_user_payload statusData t = (spread statusData)(''timestamp'' \<mapsto> DateObj t)"

definition kyc_admin_payload :: "string \<Rightarrow> js_obj \<Rightarrow> nat \<Rightarrow> payload" where
  "kyc_admin_payload u statusData t =
     ([''userId'' \<mapsto> Val (JStr u)] ++ spread statusData)(''timestamp'' \<mapsto> DateObj t)"

text \<open>\<open>t1\<close> and \<open>t2\<close> are the clock readings of the two \<^verbatim>\<open>new Date()\<close> calls.\<close>

definition emitKYCStatusUpdate ::
  "string \<Rightarrow> js_obj \<Rightarrow> nat \<Rightarrow> nat \<Rightarrow> server_state \<Rightarrow> server_state" where
  "emitKYCStatusUpdate u statusData t1 t2 s =
     io_to_emit ''admin'' (''kyc:admin:update'', kyc_admin_payload u statusData t2)
       (io_to_emit (''user:'' @ u) (''kyc:status:update'', kyc_user_payload statusData t1) s)"

text \<open>
  The object literal both emits of \<^verbatim>\<open>notifyNewApplication\<close> send, given the text
  of the job title; building it throws when the job title does not convert to text.
\<close>

definition new_application_fields :: "js_obj \<Rightarrow> string \<Rightarrow> nat \<Rightarrow> payload" where
  "new_application_fields applicationData title t =
     [''type'' \<mapsto> Val (JStr ''new_application''),
      ''application'' \<mapsto> Val (JObj applicationData),
      ''timestamp'' \<mapsto> IsoString t,
      ''message'' \<mapsto> Val (JStr (''New application received for \"'' @ title @ ''\"''))]"

definition new_application_payload :: "js_obj \<Rightarrow> nat \<Rightarrow> payload js_result" where
  "new_application_payload applicationData t =
     (case to_str (get_prop applicationData ''jobTitle'') of
        Thrown \<Rightarrow> Thrown
      | Ok title \<Rightarrow> Ok (new_application_fields applicationData title t))"

text \<open>
  The first emit: the room of the employer, then the payload, then the delivery. The
  second emit: the room name from \<^verbatim>\<open>applicationData.jobId\<close>, then the payload, then
  the delivery. An exception in the second leaves the first delivered.
\<close>

definition notifyNewApplication ::
  "js_obj \<Rightarrow> string \<Rightarrow> nat \<Rightarrow> nat \<Rightarrow> server_state \<Rightarrow> outcome" where
  "notifyNewApplication applicationData employerId t1 t2 s =
     (case new_application_payload applicationData t1 of
        Thrown \<Rightarrow> Threw s
      | Ok p1 \<Rightarrow>
          (let s1 = io_to_emit (''user:'' @ employerId) (''new_application'', p1) s in
           case to_str (get_prop applicationData ''jobId'') of
             Thrown \<Rightarrow> Threw s1
           | Ok jobId \<Rightarrow>
               (case new_application_payload applicationData t2 of
                  Thrown \<Rightarrow> Threw s1
                | Ok p2 \<Rightarrow>
                    Returned (io_to_emit (''job:'' @ jobId) (''new_application'', p2) s1))))"

subsection \<open>Concrete sockets, handshakes and payloads\<close>

text \<open>Two connections of the student \<open>u1\<close>, an admin, an employer, and a socket without identity.\<close>

definition student_tab1 :: auth_socket where
  "student_tab1 =
     \<lparr>sock_id = ''c1'', userId = Some ''u1'', userType = Some ''student'', userEmail = Some ''s@x.io''\<rparr>"

definition student_tab2 :: auth_socket where
  "student_tab2 =
     \<lparr>sock_id = ''c2'', userId = Some ''u1'', userType = Some ''student'', userEmail = Some ''s@x.io''\<rparr>"

definition admin_conn :: auth_socket where
  "admin_conn =
     \<lparr>sock_id = ''a1'', userId = Some ''u0'', userType = Some ''admin'', userEmail = Some ''r@x.io''\<rparr>"

definition employer_conn :: auth_socket where
  "employer_conn =
     \<lparr>sock_id = ''b1'', userId = Some ''u2'', userType = Some ''employer'', userEmail = Some ''e@x.io''\<rparr>"

definition bare_conn :: auth_socket where
  "bare_conn = \<lparr>sock_id = ''r1'', userId = None, userType = None, userEmail = None\<rparr>"

text \<open>
  A token service that accepts the one token \<open>good\<close>, issued to \<open>u7\<close>, and a user
  collection whose only document is the suspended account \<open>u7\<close>.
\<close>

definition verify_good :: "string \<Rightarrow> string js_result" where
  "verify_good tok = (if tok = ''good'' then Ok ''u7'' else Thrown)"

definition suspended_user :: user_doc where
  "suspended_user =
     \<lparr>u_id = ''u7'', u_email = ''q@x.io'', u_userType = ''student'', u_name = ''Q'',
      u_isActive = False\<rparr>"

definition find_suspended :: "string \<Rightarrow> user_doc option js_result" where
  "find_suspended uid = (if uid = ''u7'' then Ok (Some suspended_user) else Ok None)"

definition hs_expired :: handshake where
  "hs_expired =
     \<lparr>hs_socket_id = ''c9'', auth_token = Some ''expired'', authorization = None,
      hs_pid = None, hs_offset = None\<rparr>"

definition hs_suspended :: handshake where
  "hs_suspended =
     \<lparr>hs_socket_id = ''c7'', auth_token = None, authorization = Some ''Bearer good'',
      hs_pid = None, hs_offset = None\<rparr>"

text \<open>
  A session store with nothing to restore, and one that can restore the session \<open>p1\<close>
  of the student's first tab, which was in its personal and its role room; a handshake
  that asks for that session with an expired token.
\<close>

definition no_session :: "string \<Rightarrow> string \<Rightarrow> session option" where
  "no_session pid off = None"

definition session_of_tab1 :: "string \<Rightarrow> string \<Rightarrow> session option" where
  "session_of_tab1 pid off =
     (if pid = ''p1'' \<and> off = ''o1''
      then Some \<lparr>sess_sid = ''c1'', sess_rooms = [''user:u1'', ''student''],
                 sess_missedPackets = []\<rparr>
      else None)"

definition hs_recovering :: handshake where
  "hs_recovering =
     \<lparr>hs_socket_id = ''c8'', auth_token = Some ''expired'', authorization = None,
      hs_pid = Some ''p1'', hs_offset = Some ''o1''\<rparr>"

definition status_approved :: js_obj where
  "status_approved = [''status'' \<mapsto> JStr ''approved'']"

definition application_42 :: js_obj where
  "application_42 = [''jobId'' \<mapsto> JStr ''42'', ''jobTitle'' \<mapsto> JStr ''Barista'']"

text \<open>A job id a client can send that does not convert to text.\<close>

definition unprintable_id :: js_val where
  "unprintable_id = JObj [''toString'' \<mapsto> JStr ''x'']"

text \<open>
  A run of messages: the first tab of \<open>u1\<close> names the admin room, its role room and two
  personal rooms as job ids and ends with a job id that does not convert, and the admin's
  socket sends a leave without a job id.
\<close>

definition probing_msgs :: "(auth_socket \<times> client_msg \<times> nat) list" where
  "probing_msgs =
     [(student_tab1, JoinJobRoom (JStr ''admin''), 1),
      (student_tab1, LeaveJobRoom (JStr ''student''), 2),
      (admin_conn, LeaveJobRoom JUndefined, 3),
      (student_tab1, JoinJobRoom (JStr ''user:u0''), 4),
      (student_tab1, LeaveJobRoom (JStr ''user:u1''), 5),
      (student_tab1, LeaveJobRoom unprintable_id, 6)]"

definition two_tabs :: server_state where
  "two_tabs = accept student_tab2 1 (accept student_tab1 0 initial_state)"

definition student_and_admin :: server_state where
  "student_and_admin = accept admin_conn 1 (accept student_tab1 0 initial_state)"

text \<open>The server after the only connection, the student's first tab, has dropped.\<close>

definition tab1_dropped :: server_state where
  "tab1_dropped = disconnect student_tab1 (accept student_tab1 0 initial_state)"

section \<open>Properties\<close>

subsection \<open>Auxiliary facts\<close>

lemmas connection_defs =
  accept_def on_connection_def store_connection_def join_personal_room_def
  join_role_room_def join_admin_room_def socket_join_def socket_emit_def

lemma connectedUsers_accept:
  "connectedUsers (accept sk t s) = connectedUsers (store_connection sk s)"
  by (simp add: connection_defs split: option.splits)

lemma length_alist_update:
  "length (AList.update k v al) = (if k \<in> fst ` set al then length al else Suc (length al))"
  by (induction al) auto

lemma outbox_io_to_emit:
  "outbox (io_to_emit room ev s) c = outbox s c @ (if (c, room) \<in> rooms s then [ev] else [])"
  by (simp add: io_to_emit_def)

lemma rooms_io_to_emit: "rooms (io_to_emit room ev s) = rooms s"
  by (simp add: io_to_emit_def)

text \<open>No inbound message touches a room whose name does not start with \<open>job:\<close>.\<close>

lemma rooms_handle_msg:
  "\<not> prefix ''job:'' g \<Longrightarrow>
   ((c, g) \<in> rooms (state_of (handle_msg sk m t s))) = ((c, g) \<in> rooms s)"
  by (cases m)
    (auto simp: join_job_room_def leave_job_room_def kyc_status_request_def ping_def
      socket_join_def socket_leave_def socket_emit_def split: option.splits js_result.splits)

lemma rooms_handle_msgs:
  "\<not> prefix ''job:'' g \<Longrightarrow>
   ((c, g) \<in> rooms (state_of (handle_msgs ms s))) = ((c, g) \<in> rooms s)"
proof (induction ms arbitrary: s)
  case Nil
  then show ?case by simp
next
  case (Cons x ms)
  obtain sk m t where x: "x = (sk, m, t)" by (cases x)
  show ?case
  proof (cases "handle_msg sk m t s")
    case (Returned s')
    with Cons rooms_handle_msg [of g c sk m t s] show ?thesis by (simp add: x)
  next
    case (Threw s')
    with Cons(2) rooms_handle_msg [of g c sk m t s] show ?thesis by (simp add: x)
  qed
qed

text \<open>Restoring a session adds the session's rooms and touches no registry entry.\<close>

lemma rooms_fold_join:
  "rooms (fold (\<lambda>room. socket_join sid room) rs s) = rooms s \<union> {sid} \<times> set rs"
  by (induction rs arbitrary: s) (auto simp: socket_join_def)

lemma rooms_fold_emit: "rooms (fold (\<lambda>ev. socket_emit sid ev) evs s) = rooms s"
  by (induction evs arbitrary: s) (auto simp: socket_emit_def)

lemma connectedUsers_fold_join:
  "connectedUsers (fold (\<lambda>room. socket_join sid room) rs s) = connectedUsers s"
  by (induction rs arbitrary: s) (auto simp: socket_join_def)

lemma connectedUsers_fold_emit:
  "connectedUsers (fold (\<lambda>ev. socket_emit sid ev) evs s) = connectedUsers s"
  by (induction evs arbitrary: s) (auto simp: socket_emit_def)

lemma sockets_fold_join: "sockets (fold (\<lambda>room. socket_join sid room) rs s) = sockets s"
  by (induction rs arbitrary: s) (auto simp: socket_join_def)

lemma sockets_fold_emit: "sockets (fold (\<lambda>ev. socket_emit sid ev) evs s) = sockets s"
  by (induction evs arbitrary: s) (auto simp: socket_emit_def)

lemma accept_recovered_socket:
  "connectedUsers (accept (recovered_socket sess) t s) = connectedUsers s"
  "rooms (accept (recovered_socket sess) t s) = rooms s"
  "sockets (accept (recovered_socket sess) t s) = insert (sess_sid sess) (sockets s)"
  by (simp_all add: connection_defs recovered_socket_def)

subsection \<open>The connection registry\<close>

text \<open>
  Claim C1, as amended. The registry maps a userId to one connection id, the one
  registered last: when two authenticated connections of one user are accepted one after
  the other, the user's entry is the second connection id, the user is reported connected,
  and the second registration leaves \<open>getConnectedUsersCount\<close> where the first put it.
\<close>

theorem registry_keeps_latest_connection:
  assumes "userId sk1 = Some u" and "userId sk2 = Some u" and "u \<noteq> []"
  shows "map_of (connectedUsers (accept sk2 t2 (accept sk1 t1 s))) u = Some (sock_id sk2)
    \<and> isUserConnected u (accept sk2 t2 (accept sk1 t1 s))
    \<and> getConnectedUsersCount (accept sk2 t2 (accept sk1 t1 s))
        = getConnectedUsersCount (accept sk1 t1 s)"
  using assms
  by (simp add: connectedUsers_accept store_connection_def isUserConnected_def
      getConnectedUsersCount_def update_conv' length_alist_update dom_update)

text \<open>The amended C1 at the two tabs of student \<open>u1\<close>, opened on the empty server.\<close>

theorem registry_keeps_latest_connection_witness:
  "userId student_tab1 = Some ''u1'' \<and> userId student_tab2 = Some ''u1''
   \<and> map_of (connectedUsers (accept student_tab2 1 (accept student_tab1 0 initial_state))) ''u1''
        = Some ''c2''
   \<and> isUserConnected ''u1'' (accept student_tab2 1 (accept student_tab1 0 initial_state))
   \<and> getConnectedUsersCount (accept student_tab2 1 (accept student_tab1 0 initial_state))
        = getConnectedUsersCount (accept student_tab1 0 initial_state)"
proof -
  have h1: "userId student_tab1 = Some ''u1''" by (simp add: student_tab1_def)
  have h2: "userId student_tab2 = Some ''u1''" by (simp add: student_tab2_def)
  have h3: "''u1'' \<noteq> []" by simp
  have "sock_id student_tab2 = ''c2''" by (simp add: student_tab2_def)
  with registry_keeps_latest_connection [OF h1 h2 h3, of 1 0 initial_state] h1 h2
  show ?thesis by simp
qed

text \<open>
  Claim C1 as stated fails: with both tabs of \<open>u1\<close> open, the entry of \<open>u1\<close> is \<open>c2\<close>,
  \<open>c1\<close> is a value of no entry, and the count is 1.
\<close>

theorem registry_two_connections_counterexample:
  "''c1'' \<in> sockets two_tabs \<and> ''c2'' \<in> sockets two_tabs
   \<and> map_of (connectedUsers two_tabs) ''u1'' = Some ''c2''
   \<and> ''c1'' \<notin> snd ` set (connectedUsers two_tabs)
   \<and> getConnectedUsersCount two_tabs = 1"
  by (simp add: two_tabs_def connection_defs student_tab1_def student_tab2_def
      initial_state_def getConnectedUsersCount_def)

text \<open>
  Claim C2, as amended. After the disconnect of an authenticated connection the registry
  has no entry for its userId, so \<open>isUserConnected\<close> is false for that user whether or not
  the user holds another open connection; the connection id is in no room and is no
  longer among the connected sockets.
\<close>

theorem disconnect_removes_user_and_rooms:
  assumes "userId sk = Some u" and "u \<noteq> []"
  shows "\<not> isUserConnected u (disconnect sk s)
     \<and> (\<forall>g. (sock_id sk, g) \<notin> rooms (disconnect sk s))
     \<and> sock_id sk \<notin> sockets (disconnect sk s)"
  using assms
  by (simp add: disconnect_def on_disconnect_def socket_close_def isUserConnected_def delete_conv')

text \<open>The amended C2 at the first tab of \<open>u1\<close>, closed while the second is open.\<close>

theorem disconnect_removes_user_and_rooms_witness:
  "userId student_tab1 = Some ''u1''
   \<and> \<not> isUserConnected ''u1'' (disconnect student_tab1 two_tabs)
   \<and> (\<forall>g. (''c1'', g) \<notin> rooms (disconnect student_tab1 two_tabs))
   \<and> ''c1'' \<notin> sockets (disconnect student_tab1 two_tabs)"
proof -
  have h: "userId student_tab1 = Some ''u1''" by (simp add: student_tab1_def)
  have "sock_id student_tab1 = ''c1''" by (simp add: student_tab1_def)
  with disconnect_removes_user_and_rooms [OF h, of two_tabs] h show ?thesis by simp
qed

text \<open>
  Claim C2 as stated fails: \<open>u1\<close> has the tabs \<open>c1\<close> and \<open>c2\<close> open and \<open>c1\<close> closes;
  \<open>c2\<close> is still connected and still in the personal room of \<open>u1\<close>, yet \<open>u1\<close> is
  reported as not connected.
\<close>

theorem disconnect_with_second_tab_counterexample:
  "''c2'' \<in> sockets (disconnect student_tab1 two_tabs)
   \<and> (''c2'', ''user:u1'') \<in> rooms (disconnect student_tab1 two_tabs)
   \<and> \<not> isUserConnected ''u1'' (disconnect student_tab1 two_tabs)"
  by (simp add: two_tabs_def connection_defs student_tab1_def student_tab2_def initial_state_def
      disconnect_def on_disconnect_def socket_close_def isUserConnected_def)

subsection \<open>Authentication\<close>

text \<open>
  Claim C3, evaluated on the code. A handshake that presents the valid token of the
  suspended account \<open>u7\<close> passes the middleware: the socket gets the identity of \<open>u7\<close>, the
  attempt is not refused, and \<open>u7\<close> is registered as connected.
\<close>

theorem suspended_account_is_authenticated:
  "u_isActive suspended_user = False
   \<and> setupMiddleware verify_good find_suspended hs_suspended
       = Inr \<lparr>sock_id = ''c7'', userId = Some ''u7'', userType = Some ''student'',
              userEmail = Some ''q@x.io''\<rparr>
   \<and> snd (connect no_session verify_good find_suspended hs_suspended 0 initial_state) = None
   \<and> isUserConnected ''u7''
        (fst (connect no_session verify_good find_suspended hs_suspended 0 initial_state))"
  by (simp add: setupMiddleware_def handshake_token_def hs_suspended_def verify_good_def
      find_suspended_def suspended_user_def connect_def recover_def connection_defs
      isUserConnected_def initial_state_def)

text \<open>
  Claim C4, as amended. A connection attempt that recovers no session and has no token,
  a token that does not verify, or a verified token whose user cannot be fetched or is
  not found is refused with an error, and the server state after the attempt is the
  state before it: no registry entry, no room membership, no connected socket is added,
  and \<open>getConnectedUsersCount\<close> is unchanged. A connection attempt that recovers a
  session is accepted whatever its token, since the middleware is skipped: the socket is
  connected under the session's id and is in the session's rooms again, while the
  registry and \<open>getConnectedUsersCount\<close> are unchanged.
\<close>

theorem failed_authentication_unless_session_recovered:
  "(recover restoreSession hs = None
      \<and> (handshake_token hs = None \<or> handshake_token hs = Some []
          \<or> (\<exists>tok. handshake_token hs = Some tok \<and>
                (verify tok = Thrown
                 \<or> (\<exists>uid. verify tok = Ok uid
                       \<and> (findById uid = Thrown \<or> findById uid = Ok None)))))
    \<longrightarrow> (\<exists>e. snd (connect restoreSession verify findById hs t s) = Some e)
        \<and> fst (connect restoreSession verify findById hs t s) = s
        \<and> getConnectedUsersCount (fst (connect restoreSession verify findById hs t s))
            = getConnectedUsersCount s)
   \<and> (recover restoreSession hs = Some sess
    \<longrightarrow> snd (connect restoreSession verify findById hs t s) = None
        \<and> sockets (fst (connect restoreSession verify findById hs t s))
            = insert (sess_sid sess) (sockets s)
        \<and> rooms (fst (connect restoreSession verify findById hs t s))
            = rooms s \<union> {sess_sid sess} \<times> set (sess_rooms sess)
        \<and> connectedUsers (fst (connect restoreSession verify findById hs t s)) = connectedUsers s
        \<and> getConnectedUsersCount (fst (connect restoreSession verify findById hs t s))
            = getConnectedUsersCount s)"
proof (intro conjI impI)
  assume a: "recover restoreSession hs = None
      \<and> (handshake_token hs = None \<or> handshake_token hs = Some []
          \<or> (\<exists>tok. handshake_token hs = Some tok \<and>
                (verify tok = Thrown
                 \<or> (\<exists>uid. verify tok = Ok uid
                       \<and> (findById uid = Thrown \<or> findById uid = Ok None)))))"
  then have "\<exists>e. setupMiddleware verify findById hs = Inl e"
    by (auto simp: setupMiddleware_def split: option.splits js_result.splits)
  then obtain e where e: "setupMiddleware verify findById hs = Inl e" ..
  from a e have c: "connect restoreSession verify findById hs t s = (s, Some e)"
    by (simp add: connect_def)
  from c show "\<exists>e. snd (connect restoreSession verify findById hs t s) = Some e" by simp
  from c show "fst (connect restoreSession verify findById hs t s) = s" by simp
  from c show "getConnectedUsersCount (fst (connect restoreSession verify findById hs t s))
            = getConnectedUsersCount s" by simp
next
  assume a: "recover restoreSession hs = Some sess"
  then have c: "connect restoreSession verify findById hs t s
      = (accept (recovered_socket sess) t (restore_rooms sess s), None)"
    by (simp add: connect_def)
  from c show "snd (connect restoreSession verify findById hs t s) = None" by simp
  from c show "sockets (fst (connect restoreSession verify findById hs t s))
            = insert (sess_sid sess) (sockets s)"
    by (simp add: accept_recovered_socket restore_rooms_def sockets_fold_join sockets_fold_emit)
  from c show "rooms (fst (connect restoreSession verify findById hs t s))
            = rooms s \<union> {sess_sid sess} \<times> set (sess_rooms sess)"
    by (simp add: accept_recovered_socket restore_rooms_def rooms_fold_join rooms_fold_emit)
  from c show u: "connectedUsers (fst (connect restoreSession verify findById hs t s))
            = connectedUsers s"
    by (simp add: accept_recovered_socket restore_rooms_def connectedUsers_fold_join
        connectedUsers_fold_emit)
  from u show "getConnectedUsersCount (fst (connect restoreSession verify findById hs t s))
            = getConnectedUsersCount s"
    by (simp add: getConnectedUsersCount_def)
qed

text \<open>
  The amended C4 twice, with the two tabs of \<open>u1\<close> open: a handshake with an expired
  token and no session is refused and changes nothing; after the first tab has dropped,
  a handshake with the same expired token that recovers its session is accepted.
\<close>

theorem failed_authentication_unless_session_recovered_witness:
  "recover no_session hs_expired = None
   \<and> handshake_token hs_expired = Some ''expired'' \<and> verify_good ''expired'' = Thrown
   \<and> snd (connect no_session verify_good find_suspended hs_expired 3 two_tabs) = Some InvalidToken
   \<and> fst (connect no_session verify_good find_suspended hs_expired 3 two_tabs) = two_tabs
   \<and> getConnectedUsersCount (fst (connect no_session verify_good find_suspended hs_expired 3 two_tabs))
        = getConnectedUsersCount two_tabs
   \<and> recover session_of_tab1 hs_recovering
        = Some \<lparr>sess_sid = ''c1'', sess_rooms = [''user:u1'', ''student''], sess_missedPackets = []\<rparr>
   \<and> snd (connect session_of_tab1 verify_good find_suspended hs_recovering 9 tab1_dropped) = None
   \<and> rooms (fst (connect session_of_tab1 verify_good find_suspended hs_recovering 9 tab1_dropped))
        = rooms tab1_dropped \<union> {''c1''} \<times> {''user:u1'', ''student''}
   \<and> getConnectedUsersCount
          (fst (connect session_of_tab1 verify_good find_suspended hs_recovering 9 tab1_dropped))
        = getConnectedUsersCount tab1_dropped"
proof -
  have n: "recover no_session hs_expired = None"
    by (simp add: recover_def no_session_def hs_expired_def)
  have h: "handshake_token hs_expired = Some ''expired'' \<and> verify_good ''expired'' = Thrown"
    by (simp add: handshake_token_def hs_expired_def verify_good_def)
  then have f: "handshake_token hs_expired = None \<or> handshake_token hs_expired = Some []
     \<or> (\<exists>tok. handshake_token hs_expired = Some tok \<and>
          (verify_good tok = Thrown
           \<or> (\<exists>uid. verify_good tok = Ok uid
                \<and> (find_suspended uid = Thrown \<or> find_suspended uid = Ok None))))"
    by blast
  have r: "recover session_of_tab1 hs_recovering
        = Some \<lparr>sess_sid = ''c1'', sess_rooms = [''user:u1'', ''student''], sess_missedPackets = []\<rparr>"
    by (simp add: recover_def session_of_tab1_def hs_recovering_def)
  have e: "snd (connect no_session verify_good find_suspended hs_expired 3 two_tabs)
      = Some InvalidToken"
    using n h by (simp add: connect_def setupMiddleware_def)
  from failed_authentication_unless_session_recovered
    [of no_session hs_expired verify_good find_suspended 3 two_tabs] n f
  have a: "fst (connect no_session verify_good find_suspended hs_expired 3 two_tabs) = two_tabs
     \<and> getConnectedUsersCount (fst (connect no_session verify_good find_suspended hs_expired 3 two_tabs))
        = getConnectedUsersCount two_tabs"
    by blast
  from failed_authentication_unless_session_recovered
    [of session_of_tab1 hs_recovering verify_good find_suspended 9 tab1_dropped
        "\<lparr>sess_sid = ''c1'', sess_rooms = [''user:u1'', ''student''], sess_missedPackets = []\<rparr>"]
    r
  have b: "snd (connect session_of_tab1 verify_good find_suspended hs_recovering 9 tab1_dropped) = None
   \<and> rooms (fst (connect session_of_tab1 verify_good find_suspended hs_recovering 9 tab1_dropped))
        = rooms tab1_dropped \<union> {''c1''} \<times> {''user:u1'', ''student''}
   \<and> getConnectedUsersCount
          (fst (connect session_of_tab1 verify_good find_suspended hs_recovering 9 tab1_dropped))
        = getConnectedUsersCount tab1_dropped"
    by simp
  from n h e a r b show ?thesis by blast
qed

text \<open>
  Claim C4 as stated fails. The student's first tab has dropped and its session can be
  restored; a connection attempt asks for that session with an expired token, on which
  the middleware would answer \<open>Invalid token\<close>. The attempt is accepted: the socket
  \<open>c1\<close> is connected and in the personal room of \<open>u1\<close>, having been in neither state
  before the attempt.
\<close>

theorem expired_token_recovers_session_counterexample:
  "setupMiddleware verify_good find_suspended hs_recovering = Inl InvalidToken
   \<and> ''c1'' \<notin> sockets tab1_dropped
   \<and> (''c1'', ''user:u1'') \<notin> rooms tab1_dropped
   \<and> snd (connect session_of_tab1 verify_good find_suspended hs_recovering 9 tab1_dropped) = None
   \<and> ''c1'' \<in> sockets
        (fst (connect session_of_tab1 verify_good find_suspended hs_recovering 9 tab1_dropped))
   \<and> (''c1'', ''user:u1'') \<in> rooms
        (fst (connect session_of_tab1 verify_good find_suspended hs_recovering 9 tab1_dropped))"
  by (simp add: setupMiddleware_def handshake_token_def hs_recovering_def verify_good_def
      tab1_dropped_def disconnect_def on_disconnect_def socket_close_def connect_def recover_def
      session_of_tab1_def restore_rooms_def recovered_socket_def connection_defs
      student_tab1_def initial_state_def)

subsection \<open>Event delivery\<close>

text \<open>
  Claim C5, as amended. \<open>emitKYCStatusUpdate\<close> appends, for every connection, one
  \<open>kyc:status:update\<close> event if the connection is in the subject's personal room, then one
  \<open>kyc:admin:update\<close> event if it is in the admin room, and nothing otherwise. The first
  payload is the domain payload with \<open>timestamp\<close> set by the dispatcher (in place of a
  \<open>timestamp\<close> of the domain payload, if it has one). The second payload carries in
  addition a field \<open>userId\<close>: the domain payload's own \<open>userId\<close> if it has one, the
  subject's id otherwise.
\<close>

theorem kyc_status_update_delivery:
  "outbox (emitKYCStatusUpdate u d t1 t2 s) c
     = outbox s c
       @ (if (c, ''user:'' @ u) \<in> rooms s
          then [(''kyc:status:update'', kyc_user_payload d t1)] else [])
       @ (if (c, ''admin'') \<in> rooms s
          then [(''kyc:admin:update'', kyc_admin_payload u d t2)] else [])
   \<and> kyc_user_payload d t1 ''timestamp'' = Some (DateObj t1)
   \<and> (\<forall>k. k \<noteq> ''timestamp'' \<longrightarrow> kyc_user_payload d t1 k = map_option Val (d k))
   \<and> kyc_admin_payload u d t2 ''timestamp'' = Some (DateObj t2)
   \<and> kyc_admin_payload u d t2 ''userId''
        = Some (case d ''userId'' of None \<Rightarrow> Val (JStr u) | Some v \<Rightarrow> Val v)
   \<and> (\<forall>k. k \<noteq> ''timestamp'' \<and> k \<noteq> ''userId''
          \<longrightarrow> kyc_admin_payload u d t2 k = map_option Val (d k))"
  by (simp add: emitKYCStatusUpdate_def outbox_io_to_emit rooms_io_to_emit kyc_user_payload_def
      kyc_admin_payload_def spread_def map_add_def split: option.splits)

text \<open>
  The amended C5 with the student \<open>u1\<close> and an admin connected: the student's connection
  gets the status event, the admin's the admin event, both with the field \<open>status\<close> of
  the domain payload.
\<close>

theorem kyc_status_update_delivery_witness:
  "outbox (emitKYCStatusUpdate ''u1'' status_approved 5 6 student_and_admin) ''c1''
     = outbox student_and_admin ''c1''
       @ [(''kyc:status:update'', kyc_user_payload status_approved 5)]
   \<and> outbox (emitKYCStatusUpdate ''u1'' status_approved 5 6 student_and_admin) ''a1''
     = outbox student_and_admin ''a1''
       @ [(''kyc:admin:update'', kyc_admin_payload ''u1'' status_approved 6)]
   \<and> kyc_user_payload status_approved 5 ''status'' = Some (Val (JStr ''approved''))
   \<and> kyc_admin_payload ''u1'' status_approved 6 ''status'' = Some (Val (JStr ''approved''))"
proof -
  have r: "(''c1'', ''user:u1'') \<in> rooms student_and_admin"
    "(''c1'', ''admin'') \<notin> rooms student_and_admin"
    "(''a1'', ''user:u1'') \<notin> rooms student_and_admin"
    "(''a1'', ''admin'') \<in> rooms student_and_admin"
    by (simp_all add: student_and_admin_def connection_defs student_tab1_def admin_conn_def
        initial_state_def)
  have d: "status_approved ''status'' = Some (JStr ''approved'')"
    by (simp add: status_approved_def)
  show ?thesis
    using kyc_status_update_delivery [of "''u1''" status_approved 5 6 student_and_admin "''c1''"]
      kyc_status_update_delivery [of "''u1''" status_approved 5 6 student_and_admin "''a1''"]
      r d
    by simp
qed

text \<open>
  Claim C5 as stated fails: the domain payload has no field \<open>userId\<close>, and the event the
  admin's connection \<open>a1\<close> receives has one, next to the timestamp.
\<close>

theorem kyc_admin_payload_counterexample:
  "(''a1'', ''admin'') \<in> rooms student_and_admin
   \<and> status_approved ''userId'' = None
   \<and> fst (last (outbox (emitKYCStatusUpdate ''u1'' status_approved 5 6 student_and_admin) ''a1''))
        = ''kyc:admin:update''
   \<and> snd (last (outbox (emitKYCStatusUpdate ''u1'' status_approved 5 6 student_and_admin) ''a1''))
        ''userId'' = Some (Val (JStr ''u1''))"
  by (simp add: student_and_admin_def connection_defs student_tab1_def admin_conn_def
      initial_state_def emitKYCStatusUpdate_def io_to_emit_def kyc_admin_payload_def
      kyc_user_payload_def spread_def status_approved_def map_add_def)

text \<open>
  Claim C6. A connection \<open>B\<close> of user \<open>u\<close> is accepted and joins the job room of \<open>jid\<close>;
  \<open>notifyNewApplication\<close> is called for \<open>u\<close> with an application whose \<open>jobId\<close> is
  \<open>jid\<close> and whose job title converts to text. Then the call returns, and \<open>B\<close> has
  received exactly two more events, both named \<open>new_application\<close>, each holding the
  application payload under \<open>application\<close> and the timestamp of its own emit.
\<close>

theorem new_application_reaches_connection_twice:
  assumes "userId B = Some u" and "u \<noteq> []" and "get_prop app ''jobId'' = JStr jid"
    and "to_str (get_prop app ''jobTitle'') = Ok title"
  shows "\<not> threw (join_job_room B (JStr jid) (accept B t0 s))
    \<and> \<not> threw (notifyNewApplication app u t1 t2
                  (state_of (join_job_room B (JStr jid) (accept B t0 s))))
    \<and> outbox (state_of (notifyNewApplication app u t1 t2
                  (state_of (join_job_room B (JStr jid) (accept B t0 s))))) (sock_id B)
      = outbox (accept B t0 s) (sock_id B)
        @ [(''new_application'', new_application_fields app title t1),
           (''new_application'', new_application_fields app title t2)]
    \<and> new_application_fields app title t1 ''application'' = Some (Val (JObj app))
    \<and> new_application_fields app title t1 ''timestamp'' = Some (IsoString t1)
    \<and> new_application_fields app title t2 ''application'' = Some (Val (JObj app))
    \<and> new_application_fields app title t2 ''timestamp'' = Some (IsoString t2)"
  using assms
  by (simp add: notifyNewApplication_def new_application_payload_def outbox_io_to_emit
      rooms_io_to_emit join_job_room_def new_application_fields_def connection_defs
      split: option.splits)

text \<open>C6 at the employer \<open>u2\<close> on connection \<open>b1\<close> and the job \<open>42\<close>.\<close>

theorem new_application_reaches_connection_twice_witness:
  "userId employer_conn = Some ''u2'' \<and> get_prop application_42 ''jobId'' = JStr ''42''
   \<and> to_str (get_prop application_42 ''jobTitle'') = Ok ''Barista''
   \<and> (''b1'', ''job:42'') \<in> rooms (state_of (join_job_room employer_conn (JStr ''42'')
                                      (accept employer_conn 2 initial_state)))
   \<and> \<not> threw (notifyNewApplication application_42 ''u2'' 8 9
         (state_of (join_job_room employer_conn (JStr ''42'') (accept employer_conn 2 initial_state))))
   \<and> outbox (state_of (notifyNewApplication application_42 ''u2'' 8 9
         (state_of (join_job_room employer_conn (JStr ''42'')
            (accept employer_conn 2 initial_state))))) ''b1''
      = outbox (accept employer_conn 2 initial_state) ''b1''
        @ [(''new_application'', new_application_fields application_42 ''Barista'' 8),
           (''new_application'', new_application_fields application_42 ''Barista'' 9)]"
proof -
  have h1: "userId employer_conn = Some ''u2''" by (simp add: employer_conn_def)
  have h2: "''u2'' \<noteq> []" by simp
  have h3: "get_prop application_42 ''jobId'' = JStr ''42''"
    by (simp add: get_prop_def application_42_def)
  have h4: "to_str (get_prop application_42 ''jobTitle'') = Ok ''Barista''"
    by (simp add: get_prop_def application_42_def)
  have i: "sock_id employer_conn = ''b1''" by (simp add: employer_conn_def)
  have m: "(''b1'', ''job:42'') \<in> rooms (state_of (join_job_room employer_conn (JStr ''42'')
                                      (accept employer_conn 2 initial_state)))"
    by (simp add: join_job_room_def socket_join_def i)
  from new_application_reaches_connection_twice [OF h1 h2 h3 h4, of 2 initial_state 8 9]
    h1 h3 h4 i m
  show ?thesis by simp
qed

subsection \<open>Inbound control messages\<close>

text \<open>
  Claim C7. For a job id that converts to text, and so names a job room: handling
  \<open>join_job_room\<close> returns, and handling it a second time returns the state the first
  handling gave; \<open>leave_job_room\<close> for a job room the connection is not in returns and
  leaves the state as it is, raising nothing, and so does a second \<open>leave_job_room\<close>
  after a first.
\<close>

theorem job_room_join_leave_idempotent:
  assumes "to_str j = Ok name"
  shows "\<not> threw (join_job_room sk j s)
   \<and> join_job_room sk j (state_of (join_job_room sk j s)) = join_job_room sk j s
   \<and> ((sock_id sk, ''job:'' @ name) \<notin> rooms s \<longrightarrow> leave_job_room sk j s = Returned s)
   \<and> \<not> threw (leave_job_room sk j s)
   \<and> leave_job_room sk j (state_of (leave_job_room sk j s)) = leave_job_room sk j s"
  using assms
  by (simp add: join_job_room_def leave_job_room_def socket_join_def socket_leave_def)

text \<open>C7 at the first tab of \<open>u1\<close>, which is in no job room after being accepted.\<close>

theorem job_room_join_leave_idempotent_witness:
  "to_str (JStr ''42'') = Ok ''42''
   \<and> \<not> threw (join_job_room student_tab1 (JStr ''42'') (accept student_tab1 0 initial_state))
   \<and> join_job_room student_tab1 (JStr ''42'')
       (state_of (join_job_room student_tab1 (JStr ''42'') (accept student_tab1 0 initial_state)))
      = join_job_room student_tab1 (JStr ''42'') (accept student_tab1 0 initial_state)
   \<and> (sock_id student_tab1, ''job:'' @ ''42'') \<notin> rooms (accept student_tab1 0 initial_state)
   \<and> leave_job_room student_tab1 (JStr ''42'') (accept student_tab1 0 initial_state)
        = Returned (accept student_tab1 0 initial_state)"
proof -
  have h: "to_str (JStr ''42'') = Ok ''42''" by simp
  have n: "(sock_id student_tab1, ''job:'' @ ''42'') \<notin> rooms (accept student_tab1 0 initial_state)"
    by (simp add: connection_defs student_tab1_def initial_state_def)
  from job_room_join_leave_idempotent
      [OF h, of student_tab1 "accept student_tab1 0 initial_state"] n h
  show ?thesis by blast
qed

text \<open>
  A job id that does not convert to text names no room: both handlers throw and leave
  the state as it is.
\<close>

lemma job_room_handlers_throw:
  "to_str j = Thrown \<Longrightarrow> join_job_room sk j s = Threw s \<and> leave_job_room sk j s = Threw s"
  by (simp add: join_job_room_def leave_job_room_def)

lemma unprintable_id_throws: "to_str unprintable_id = Thrown"
  by (simp add: unprintable_id_def)

text \<open>
  Claim C8. A connection with a fresh id is accepted with user \<open>u\<close> and role \<open>r\<close>, a
  role whose name is not itself a job room name (the roles of the repository are
  \<open>student\<close>, \<open>employer\<close> and \<open>admin\<close>). After any run of inbound messages, from this
  and from any other sockets and with any job ids, whether the run is handled to its end
  or ends in a handler that throws, the rooms outside the \<open>job:\<close> namespace that hold
  the connection are exactly its personal room, its role room and, for an admin, the
  admin room.
\<close>

theorem identity_rooms_not_client_mutable:
  assumes "userId sk = Some u" and "u \<noteq> []" and "userType sk = Some r" and "r \<noteq> []"
    and "\<not> prefix ''job:'' r" and "\<forall>g. (sock_id sk, g) \<notin> rooms s" and "\<not> prefix ''job:'' g"
  shows "(sock_id sk, g) \<in> rooms (state_of (handle_msgs ms (accept sk t s)))
     \<longleftrightarrow> g = ''user:'' @ u \<or> g = r \<or> (r = ''admin'' \<and> g = ''admin'')"
proof -
  have "(sock_id sk, g) \<in> rooms (state_of (handle_msgs ms (accept sk t s)))
      \<longleftrightarrow> (sock_id sk, g) \<in> rooms (accept sk t s)"
    using assms(7) by (rule rooms_handle_msgs)
  also have "\<dots> \<longleftrightarrow> g = ''user:'' @ u \<or> g = r \<or> (r = ''admin'' \<and> g = ''admin'')"
    using assms(1-4,6) by (auto simp: connection_defs)
  finally show ?thesis .
qed

text \<open>
  C8 at the first tab of \<open>u1\<close> and the run \<open>probing_msgs\<close>: the tab is still in
  \<open>student\<close> and \<open>user:u1\<close> and in neither \<open>admin\<close> nor \<open>user:u0\<close>.
\<close>

theorem identity_rooms_not_client_mutable_witness:
  "userId student_tab1 = Some ''u1'' \<and> userType student_tab1 = Some ''student''
   \<and> (''c1'', ''student'') \<in> rooms (state_of (handle_msgs probing_msgs (accept student_tab1 0 initial_state)))
   \<and> (''c1'', ''user:u1'') \<in> rooms (state_of (handle_msgs probing_msgs (accept student_tab1 0 initial_state)))
   \<and> (''c1'', ''admin'') \<notin> rooms (state_of (handle_msgs probing_msgs (accept student_tab1 0 initial_state)))
   \<and> (''c1'', ''user:u0'') \<notin> rooms (state_of (handle_msgs probing_msgs (accept student_tab1 0 initial_state)))"
proof -
  have h1: "userId student_tab1 = Some ''u1''" by (simp add: student_tab1_def)
  have h2: "''u1'' \<noteq> []" by simp
  have h3: "userType student_tab1 = Some ''student''" by (simp add: student_tab1_def)
  have h4: "''student'' \<noteq> []" by simp
  have h5: "\<not> prefix ''job:'' ''student''" by simp
  have h6: "\<forall>g. (sock_id student_tab1, g) \<notin> rooms initial_state"
    by (simp add: initial_state_def)
  have i: "sock_id student_tab1 = ''c1''" by (simp add: student_tab1_def)
  note th = identity_rooms_not_client_mutable [OF h1 h2 h3 h4 h5 h6]
  have g1: "\<not> prefix ''job:'' ''student''" and g2: "\<not> prefix ''job:'' ''user:u1''"
    and g3: "\<not> prefix ''job:'' ''admin''" and g4: "\<not> prefix ''job:'' ''user:u0''"
    by simp_all
  show ?thesis
    using th [OF g1, of probing_msgs 0] th [OF g2, of probing_msgs 0]
      th [OF g3, of probing_msgs 0] th [OF g4, of probing_msgs 0] h1 h3
    by (simp add: i)
qed

text \<open>
  Claim C9, as amended. A \<open>join_job_room\<close> message without a job id is not discarded:
  the missing id is rendered as the text \<open>undefined\<close> and the connection joins the room
  \<open>job:undefined\<close>; a \<open>leave_job_room\<close> message without a job id takes the connection
  out of that room. Nothing else changes: the other room memberships, the registry and
  the events sent stay as they were, and the connection stays connected.
\<close>

theorem missing_job_id_uses_room_undefined:
  "\<not> threw (join_job_room sk JUndefined s) \<and> \<not> threw (leave_job_room sk JUndefined s)
   \<and> rooms (state_of (join_job_room sk JUndefined s))
        = insert (sock_id sk, ''job:undefined'') (rooms s)
   \<and> rooms (state_of (leave_job_room sk JUndefined s))
        = rooms s - {(sock_id sk, ''job:undefined'')}
   \<and> connectedUsers (state_of (join_job_room sk JUndefined s)) = connectedUsers s
   \<and> connectedUsers (state_of (leave_job_room sk JUndefined s)) = connectedUsers s
   \<and> sockets (state_of (join_job_room sk JUndefined s)) = sockets s
   \<and> sockets (state_of (leave_job_room sk JUndefined s)) = sockets s
   \<and> outbox (state_of (join_job_room sk JUndefined s)) = outbox s
   \<and> outbox (state_of (leave_job_room sk JUndefined s)) = outbox s"
  by (simp add: join_job_room_def leave_job_room_def socket_join_def socket_leave_def)

text \<open>
  Claim C9 as stated fails: the first tab of \<open>u1\<close> is not in the room \<open>job:undefined\<close>,
  sends \<open>join_job_room\<close> without a job id, and is in that room afterwards.
\<close>

theorem missing_job_id_counterexample:
  "(''c1'', ''job:undefined'') \<notin> rooms (accept student_tab1 0 initial_state)
   \<and> (''c1'', ''job:undefined'')
        \<in> rooms (state_of (join_job_room student_tab1 JUndefined
                              (accept student_tab1 0 initial_state)))"
  by (simp add: connection_defs student_tab1_def initial_state_def join_job_room_def)

text \<open>
  Claim C10. On \<open>kyc:status:request\<close> a socket with a userId gets one more event,
  \<open>kyc:status:response\<close> with that userId and a timestamp, and no other socket gets
  anything; a socket without a userId gets no reply and the state is unchanged.
\<close>

theorem kyc_status_request_reply:
  "(userId sk = Some u \<and> u \<noteq> [] \<longrightarrow>
      outbox (kyc_status_request sk t s) (sock_id sk)
        = outbox s (sock_id sk)
          @ [(''kyc:status:response'', [''userId'' \<mapsto> Val (JStr u), ''timestamp'' \<mapsto> DateObj t])]
      \<and> (\<forall>c. c \<noteq> sock_id sk \<longrightarrow> outbox (kyc_status_request sk t s) c = outbox s c))
   \<and> (userId sk = None \<longrightarrow> kyc_status_request sk t s = s)"
  by (simp add: kyc_status_request_def socket_emit_def)

text \<open>C10 at the first tab of \<open>u1\<close> and at a socket without identity.\<close>

theorem kyc_status_request_reply_witness:
  "userId student_tab1 = Some ''u1'' \<and> userId bare_conn = None
   \<and> outbox (kyc_status_request student_tab1 4 initial_state) ''c1''
        = outbox initial_state ''c1''
          @ [(''kyc:status:response'',
              [''userId'' \<mapsto> Val (JStr ''u1''), ''timestamp'' \<mapsto> DateObj 4])]
   \<and> outbox (kyc_status_request student_tab1 4 initial_state) ''b1'' = outbox initial_state ''b1''
   \<and> kyc_status_request bare_conn 4 initial_state = initial_state"
proof -
  have h1: "userId student_tab1 = Some ''u1''" and i: "sock_id student_tab1 = ''c1''"
    by (simp_all add: student_tab1_def)
  have h2: "userId bare_conn = None" by (simp add: bare_conn_def)
  show ?thesis
    using kyc_status_request_reply [of student_tab1 "''u1''" 4 initial_state]
      kyc_status_request_reply [of bare_conn "''u1''" 4 initial_state] h1 h2 i
    by simp
qed

end
